theory Spec2Isabelle
  imports Main "HOL-Library.Word" "HOL-Library.Log_Nat"
begin

unbundle bit_operations_syntax

section \<open>Go values\<close>

text \<open>
  Go errors: \<open>fmt.Errorf("msg")\<close> is \<open>Errorf\<close>, \<open>fmt.Errorf("msg: %w", err)\<close> is
  \<open>Wrapf\<close>. A call of the repository either returns a value, returns an error, or
  panics (a nil pointer dereference).
\<close>

datatype error = Errorf string | Wrapf string error

datatype 'a result = Ok 'a | Err error | Panic

fun isErr :: "'a result \<Rightarrow> bool" where
  "isErr (Err e) = True"
| "isErr (Ok v) = False"
| "isErr Panic = False"

text \<open>
  \<open>time.Time\<close> is an instant, here in nanoseconds since the Unix epoch;
  \<open>time.Duration\<close> is an \<open>int64\<close> count of nanoseconds, so its arithmetic wraps.
\<close>

type_synonym time_Time = int
type_synonym time_Duration = "64 word"

definition time_Second :: time_Duration where
  "time_Second = 1000000000"

definition time_Minute :: time_Duration where
  "time_Minute = 60 * time_Second"

definition time_Hour :: time_Duration where
  "time_Hour = 60 * time_Minute"

definition time_Add :: "time_Time \<Rightarrow> time_Duration \<Rightarrow> time_Time" where
  "time_Add t d = t + sint d"

section \<open>Package config\<close>

record CertificateConfig =
  Domain :: string
  Country :: string
  State :: string
  Locality :: string
  Organization :: string
  OrganizationalUnit :: string
  ValidityDays :: int
  KeySize :: int
  PKCS12Password :: string

record Subject =
  Country :: string
  State :: string
  Locality :: string
  Organization :: string
  OrganizationalUnit :: string
  CommonName :: string

record CertificateOptions =
  Subject :: Subject
  DNSNames :: "string list"
  ValidFrom :: time_Time
  ValidFor :: time_Duration
  IsCA :: bool
  KeyUsage :: "string list"
  ExtKeyUsage :: "string list"

definition NewCertificateConfig :: CertificateConfig where
  "NewCertificateConfig =
     \<lparr> Domain = '''',
       CertificateConfig.Country = ''SG'',
       CertificateConfig.State = ''Singapore'',
       CertificateConfig.Locality = ''Singapore'',
       CertificateConfig.Organization = ''Erfi Corp'',
       CertificateConfig.OrganizationalUnit = ''Erfi Proxy'',
       ValidityDays = 3650,
       KeySize = 4096,
       PKCS12Password = ''yourPKCS12Password'' \<rparr>"

text \<open>
  \<open>GetRootCAOptions\<close> and \<open>GetLeafCertOptions\<close> read the clock once
  (\<open>time.Now()\<close>); the instant read is the argument \<open>now\<close>.
  \<open>time.Duration(c.ValidityDays)\<close> converts the 64-bit \<open>int\<close> to \<open>int64\<close>, and the
  product with \<open>24 * time.Hour\<close> is an \<open>int64\<close> product.
\<close>

definition GetRootCAOptions :: "CertificateConfig \<Rightarrow> time_Time \<Rightarrow> CertificateOptions" where
  "GetRootCAOptions c now =
     \<lparr> CertificateOptions.Subject =
         \<lparr> Subject.Country = CertificateConfig.Country c,
           Subject.State = CertificateConfig.State c,
           Subject.Locality = CertificateConfig.Locality c,
           Subject.Organization = CertificateConfig.Organization c,
           Subject.OrganizationalUnit = CertificateConfig.OrganizationalUnit c,
           Subject.CommonName = Domain c \<rparr>,
       DNSNames = [Domain c],
       ValidFrom = now,
       ValidFor = 1024 * 24 * time_Hour,
       IsCA = True,
       KeyUsage = [''keyCertSign'', ''cRLSign''],
       ExtKeyUsage = [] \<rparr>"

definition GetLeafCertOptions :: "CertificateConfig \<Rightarrow> time_Time \<Rightarrow> CertificateOptions" where
  "GetLeafCertOptions c now =
     \<lparr> CertificateOptions.Subject =
         \<lparr> Subject.Country = CertificateConfig.Country c,
           Subject.State = CertificateConfig.State c,
           Subject.Locality = CertificateConfig.Locality c,
           Subject.Organization = CertificateConfig.Organization c,
           Subject.OrganizationalUnit = CertificateConfig.OrganizationalUnit c,
           Subject.CommonName = Domain c \<rparr>,
       DNSNames = [Domain c],
       ValidFrom = now,
       ValidFor = word_of_int (ValidityDays c) * 24 * time_Hour,
       IsCA = False,
       KeyUsage = [''digitalSignature'', ''nonRepudiation'', ''keyEncipherment'',
                   ''dataEncipherment''],
       ExtKeyUsage = [''serverAuth'', ''clientAuth''] \<rparr>"

section \<open>Standard-library types used by the generator\<close>

text \<open>\<open>rsa.PublicKey\<close>, and \<open>rsa.PrivateKey\<close> which embeds it.\<close>

record rsa_PublicKey =
  N :: int
  E :: int

record rsa_PrivateKey = rsa_PublicKey +
  D :: int
  Primes :: "int list"

text \<open>The value behind the \<open>any\<close> that \<open>x509.ParsePKCS8PrivateKey\<close> returns.\<close>

datatype crypto_PrivateKey =
    RSA_PrivateKey rsa_PrivateKey
  | ECDSA_PrivateKey int
  | Ed25519_PrivateKey int
  | ECDH_PrivateKey int

text \<open>\<open>x509.KeyUsage\<close> is an \<open>int\<close> bit mask, \<open>1 << iota\<close>.\<close>

definition KeyUsageDigitalSignature :: int where "KeyUsageDigitalSignature = 1"
definition KeyUsageContentCommitment :: int where "KeyUsageContentCommitment = 2"
definition KeyUsageKeyEncipherment :: int where "KeyUsageKeyEncipherment = 4"
definition KeyUsageDataEncipherment :: int where "KeyUsageDataEncipherment = 8"
definition KeyUsageKeyAgreement :: int where "KeyUsageKeyAgreement = 16"
definition KeyUsageCertSign :: int where "KeyUsageCertSign = 32"
definition KeyUsageCRLSign :: int where "KeyUsageCRLSign = 64"
definition KeyUsageEncipherOnly :: int where "KeyUsageEncipherOnly = 128"
definition KeyUsageDecipherOnly :: int where "KeyUsageDecipherOnly = 256"

datatype x509_ExtKeyUsage =
    ExtKeyUsageAny
  | ExtKeyUsageServerAuth
  | ExtKeyUsageClientAuth
  | ExtKeyUsageCodeSigning
  | ExtKeyUsageEmailProtection
  | ExtKeyUsageIPSECEndSystem
  | ExtKeyUsageIPSECTunnel
  | ExtKeyUsageIPSECUser
  | ExtKeyUsageTimeStamping
  | ExtKeyUsageOCSPSigning
  | ExtKeyUsageMicrosoftServerGatedCrypto
  | ExtKeyUsageNetscapeServerGatedCrypto
  | ExtKeyUsageMicrosoftCommercialCodeSigning
  | ExtKeyUsageMicrosoftKernelCodeSigning

datatype x509_PublicKeyAlgorithm = UnknownPublicKeyAlgorithm | RSA | DSA | ECDSA | Ed25519

record pkix_Name =
  Country :: "string list"
  Province :: "string list"
  Locality :: "string list"
  Organization :: "string list"
  OrganizationalUnit :: "string list"
  CommonName :: string

text \<open>
  \<open>x509.Certificate\<close>, the fields the repository sets or reads. The type \<open>'b\<close> is the
  type of byte strings (\<open>[]byte\<close>): the repository never looks into one, it only hands
  them from one library call to the next. \<open>PublicKey\<close> is \<open>None\<close> in a template.
\<close>

record 'b x509_Certificate =
  Raw :: 'b
  RawTBSCertificate :: 'b
  Signature :: 'b
  PublicKeyAlgorithm :: x509_PublicKeyAlgorithm
  PublicKey :: "rsa_PublicKey option"
  Version :: int
  SerialNumber :: int
  Subject :: pkix_Name
  NotBefore :: time_Time
  NotAfter :: time_Time
  KeyUsage :: int
  ExtKeyUsage :: "x509_ExtKeyUsage list"
  BasicConstraintsValid :: bool
  IsCA :: bool
  DNSNames :: "string list"

record 'b pem_Block =
  Type :: string
  Headers :: "(string \<times> string) list"
  Bytes :: 'b

section \<open>The standard library as a parameter\<close>

text \<open>
  The functions of \<open>crypto/rsa\<close>, \<open>crypto/rand\<close>, \<open>crypto/x509\<close>, \<open>encoding/pem\<close>
  and \<open>encoding/base64\<close> that the repository calls. They are not code of the
  repository, so the model takes them as a parameter \<open>L\<close>; what is assumed of them is
  stated in the contracts below, and a symbolic implementation at the end of the
  theory satisfies every contract. The type \<open>'r\<close> is the state of the entropy source
  \<open>rand.Reader\<close>, which every drawing function reads and advances.
\<close>

record ('b, 'r) stdlib =
  nil_bytes :: 'b
  rsa_GenerateKey :: "'r \<Rightarrow> int \<Rightarrow> (error + rsa_PrivateKey) \<times> 'r"
  rand_Int :: "'r \<Rightarrow> int \<Rightarrow> (error + int) \<times> 'r"
  x509_CreateCertificate ::
    "'r \<Rightarrow> 'b x509_Certificate \<Rightarrow> 'b x509_Certificate \<Rightarrow> rsa_PublicKey \<Rightarrow> rsa_PrivateKey
      \<Rightarrow> (error + 'b) \<times> 'r"
  x509_ParseCertificate :: "'b \<Rightarrow> error + 'b x509_Certificate"
  checkSignature :: "'b \<Rightarrow> 'b \<Rightarrow> rsa_PublicKey \<Rightarrow> error option"
  x509_MarshalPKCS8PrivateKey :: "rsa_PrivateKey \<Rightarrow> error + 'b"
  x509_ParsePKCS8PrivateKey :: "'b \<Rightarrow> error + crypto_PrivateKey"
  pem_EncodeToMemory :: "'b pem_Block \<Rightarrow> 'b"
  pem_Decode :: "'b \<Rightarrow> 'b pem_Block option \<times> 'b"
  base64_EncodeToString :: "'b \<Rightarrow> string"

text \<open>
  \<open>Certificate.CheckSignatureFrom\<close> of \<open>crypto/x509\<close>: the parent must be allowed to
  sign (basic constraints, key usage), then the signature over the to-be-signed bytes
  is checked with the parent's public key.
\<close>

definition CheckSignatureFrom ::
  "('b, 'r) stdlib \<Rightarrow> 'b x509_Certificate \<Rightarrow> 'b x509_Certificate \<Rightarrow> error option" where
  "CheckSignatureFrom L c parent =
     (if (Version parent = 3 \<and> \<not> BasicConstraintsValid parent) \<or>
         (BasicConstraintsValid parent \<and> \<not> x509_Certificate.IsCA parent)
      then Some (Errorf ''x509: invalid signature: parent certificate cannot sign this kind of certificate'')
      else if x509_Certificate.KeyUsage parent \<noteq> 0 \<and>
              x509_Certificate.KeyUsage parent AND KeyUsageCertSign = 0
      then Some (Errorf ''x509: invalid signature: parent certificate cannot sign this kind of certificate'')
      else if PublicKeyAlgorithm parent = UnknownPublicKeyAlgorithm
      then Some (Errorf ''x509: cannot verify signature: algorithm unimplemented'')
      else (case PublicKey parent of
              None \<Rightarrow> Some (Errorf ''x509: cannot verify signature: algorithm unimplemented'')
            | Some pub \<Rightarrow> checkSignature L (RawTBSCertificate c) (Signature c) pub))"

section \<open>Package certificate\<close>

record Generator =
  config :: "CertificateConfig option"

definition NewGenerator :: "CertificateConfig option \<Rightarrow> Generator" where
  "NewGenerator cfg = \<lparr> config = cfg \<rparr>"

definition GeneratePrivateKey ::
  "('b, 'r) stdlib \<Rightarrow> Generator \<Rightarrow> 'r \<Rightarrow> rsa_PrivateKey result \<times> 'r" where
  "GeneratePrivateKey L g rnd =
     (case config g of
        None \<Rightarrow> (Err (Errorf ''configuration is nil''), rnd)
      | Some c \<Rightarrow>
          if KeySize c < 1024
          then (Err (Errorf ''key size must be at least 1024 bits''), rnd)
          else (case rsa_GenerateKey L rnd (KeySize c) of
                  (Inl err, rnd') \<Rightarrow> (Err (Wrapf ''failed to generate private key'' err), rnd')
                | (Inr key, rnd') \<Rightarrow> (Ok key, rnd')))"

text \<open>
  The certificate templates are the two struct literals of \<open>GenerateRootCA\<close> and
  \<open>GenerateLeafCertificate\<close>; every field they leave out has Go's zero value.
\<close>

definition RootCATemplate ::
  "('b, 'r) stdlib \<Rightarrow> CertificateOptions \<Rightarrow> int \<Rightarrow> 'b x509_Certificate" where
  "RootCATemplate L opts serialNumber =
     \<lparr> Raw = nil_bytes L, RawTBSCertificate = nil_bytes L, Signature = nil_bytes L,
       PublicKeyAlgorithm = UnknownPublicKeyAlgorithm, PublicKey = None, Version = 0,
       SerialNumber = serialNumber,
       Subject =
         \<lparr> Country = [Subject.Country (CertificateOptions.Subject opts)],
           Province = [Subject.State (CertificateOptions.Subject opts)],
           Locality = [Subject.Locality (CertificateOptions.Subject opts)],
           Organization = [Subject.Organization (CertificateOptions.Subject opts)],
           OrganizationalUnit = [Subject.OrganizationalUnit (CertificateOptions.Subject opts)],
           CommonName = Subject.CommonName (CertificateOptions.Subject opts) \<rparr>,
       NotBefore = ValidFrom opts,
       NotAfter = time_Add (ValidFrom opts) (ValidFor opts),
       KeyUsage = KeyUsageCertSign OR KeyUsageCRLSign,
       ExtKeyUsage = [ExtKeyUsageServerAuth],
       BasicConstraintsValid = True,
       IsCA = True,
       DNSNames = CertificateOptions.DNSNames opts \<rparr>"

definition LeafTemplate ::
  "('b, 'r) stdlib \<Rightarrow> CertificateOptions \<Rightarrow> int \<Rightarrow> 'b x509_Certificate" where
  "LeafTemplate L opts serialNumber =
     \<lparr> Raw = nil_bytes L, RawTBSCertificate = nil_bytes L, Signature = nil_bytes L,
       PublicKeyAlgorithm = UnknownPublicKeyAlgorithm, PublicKey = None, Version = 0,
       SerialNumber = serialNumber,
       Subject =
         \<lparr> Country = [Subject.Country (CertificateOptions.Subject opts)],
           Province = [Subject.State (CertificateOptions.Subject opts)],
           Locality = [Subject.Locality (CertificateOptions.Subject opts)],
           Organization = [Subject.Organization (CertificateOptions.Subject opts)],
           OrganizationalUnit = [Subject.OrganizationalUnit (CertificateOptions.Subject opts)],
           CommonName = Subject.CommonName (CertificateOptions.Subject opts) \<rparr>,
       NotBefore = ValidFrom opts,
       NotAfter = time_Add (ValidFrom opts) (ValidFor opts),
       KeyUsage = KeyUsageDigitalSignature OR KeyUsageKeyEncipherment,
       ExtKeyUsage = [ExtKeyUsageServerAuth, ExtKeyUsageClientAuth],
       BasicConstraintsValid = False,
       IsCA = False,
       DNSNames = CertificateOptions.DNSNames opts \<rparr>"

text \<open>
  \<open>GenerateRootCA\<close>: the key, the options (reading the clock), the serial number, the
  self-signed certificate, parsed back. \<open>g.config\<close> is not nil once
  \<open>GeneratePrivateKey\<close> has succeeded.
\<close>

definition GenerateRootCA ::
  "('b, 'r) stdlib \<Rightarrow> Generator \<Rightarrow> time_Time \<Rightarrow> 'r
    \<Rightarrow> ('b x509_Certificate \<times> rsa_PrivateKey) result \<times> 'r" where
  "GenerateRootCA L g now rnd =
     (case GeneratePrivateKey L g rnd of
        (Err err, r1) \<Rightarrow> (Err err, r1)
      | (Panic, r1) \<Rightarrow> (Panic, r1)
      | (Ok key, r1) \<Rightarrow>
          (case config g of
             None \<Rightarrow> (Panic, r1)
           | Some c \<Rightarrow>
               let opts = GetRootCAOptions c now in
               (case rand_Int L r1 (2 ^ 128) of
                  (Inl err, r2) \<Rightarrow> (Err (Wrapf ''failed to generate serial number'' err), r2)
                | (Inr serialNumber, r2) \<Rightarrow>
                    let template = RootCATemplate L opts serialNumber in
                    (case x509_CreateCertificate L r2 template template
                            (rsa_PublicKey.truncate key) key of
                       (Inl err, r3) \<Rightarrow>
                         (Err (Wrapf ''failed to create root CA certificate'' err), r3)
                     | (Inr certDER, r3) \<Rightarrow>
                         (case x509_ParseCertificate L certDER of
                            Inl err \<Rightarrow>
                              (Err (Wrapf ''failed to parse root CA certificate'' err), r3)
                          | Inr cert \<Rightarrow> (Ok (cert, key), r3))))))"

text \<open>
  \<open>GenerateLeafCertificate\<close>: as above, signed by the CA key with the CA certificate
  as parent. \<open>x509.CreateCertificate\<close> dereferences both, so a nil \<open>caCert\<close> or
  \<open>caKey\<close> panics there.
\<close>

definition GenerateLeafCertificate ::
  "('b, 'r) stdlib \<Rightarrow> Generator \<Rightarrow> 'b x509_Certificate option \<Rightarrow> rsa_PrivateKey option
    \<Rightarrow> time_Time \<Rightarrow> 'r \<Rightarrow> ('b x509_Certificate \<times> rsa_PrivateKey) result \<times> 'r" where
  "GenerateLeafCertificate L g caCert caKey now rnd =
     (case GeneratePrivateKey L g rnd of
        (Err err, r1) \<Rightarrow> (Err err, r1)
      | (Panic, r1) \<Rightarrow> (Panic, r1)
      | (Ok key, r1) \<Rightarrow>
          (case config g of
             None \<Rightarrow> (Panic, r1)
           | Some c \<Rightarrow>
               let opts = GetLeafCertOptions c now in
               (case rand_Int L r1 (2 ^ 128) of
                  (Inl err, r2) \<Rightarrow> (Err (Wrapf ''failed to generate serial number'' err), r2)
                | (Inr serialNumber, r2) \<Rightarrow>
                    let template = LeafTemplate L opts serialNumber in
                    (case (caCert, caKey) of
                       (Some parent, Some priv) \<Rightarrow>
                         (case x509_CreateCertificate L r2 template parent
                                 (rsa_PublicKey.truncate key) priv of
                            (Inl err, r3) \<Rightarrow>
                              (Err (Wrapf ''failed to create leaf certificate'' err), r3)
                          | (Inr certDER, r3) \<Rightarrow>
                              (case x509_ParseCertificate L certDER of
                                 Inl err \<Rightarrow>
                                   (Err (Wrapf ''failed to parse leaf certificate'' err), r3)
                               | Inr cert \<Rightarrow> (Ok (cert, key), r3)))
                     | _ \<Rightarrow> (Panic, r2)))))"

section \<open>Package encoding\<close>

text \<open>
  A pointer argument is an \<open>option\<close>, \<open>None\<close> for nil. \<open>pem.Decode\<close> returns the
  block found (nil if none) and the rest of the input, which the repository drops.
\<close>

definition EncodeCertificateToPEM ::
  "('b, 'r) stdlib \<Rightarrow> 'b x509_Certificate option \<Rightarrow> 'b result" where
  "EncodeCertificateToPEM L cert =
     (case cert of
        None \<Rightarrow> Err (Errorf ''certificate is nil'')
      | Some c \<Rightarrow>
          Ok (pem_EncodeToMemory L \<lparr> Type = ''CERTIFICATE'', Headers = [], Bytes = Raw c \<rparr>))"

definition EncodePrivateKeyToPEM ::
  "('b, 'r) stdlib \<Rightarrow> rsa_PrivateKey option \<Rightarrow> 'b result" where
  "EncodePrivateKeyToPEM L key =
     (case key of
        None \<Rightarrow> Err (Errorf ''private key is nil'')
      | Some k \<Rightarrow>
          (case x509_MarshalPKCS8PrivateKey L k of
             Inl err \<Rightarrow> Err (Wrapf ''failed to marshal private key'' err)
           | Inr keyBytes \<Rightarrow>
               Ok (pem_EncodeToMemory L
                     \<lparr> Type = ''PRIVATE KEY'', Headers = [], Bytes = keyBytes \<rparr>)))"

definition ConvertPEMToDER :: "('b, 'r) stdlib \<Rightarrow> 'b \<Rightarrow> 'b result" where
  "ConvertPEMToDER L pemData =
     (case fst (pem_Decode L pemData) of
        None \<Rightarrow> Err (Errorf ''failed to parse PEM block'')
      | Some block \<Rightarrow> Ok (Bytes block))"

definition EncodeDERToBase64 :: "('b, 'r) stdlib \<Rightarrow> 'b \<Rightarrow> string" where
  "EncodeDERToBase64 L derData = base64_EncodeToString L derData"

text \<open>\<open>cert.Raw\<close> is read with no nil check: a nil \<open>cert\<close> panics.\<close>

definition ConvertCertificateToBase64DER ::
  "('b, 'r) stdlib \<Rightarrow> 'b x509_Certificate option \<Rightarrow> string result" where
  "ConvertCertificateToBase64DER L cert =
     (case cert of
        None \<Rightarrow> Panic
      | Some c \<Rightarrow> Ok (EncodeDERToBase64 L (Raw c)))"

definition DecodePEMCertificate ::
  "('b, 'r) stdlib \<Rightarrow> 'b \<Rightarrow> 'b x509_Certificate result" where
  "DecodePEMCertificate L pemData =
     (case fst (pem_Decode L pemData) of
        None \<Rightarrow> Err (Errorf ''failed to parse PEM block'')
      | Some block \<Rightarrow>
          (case x509_ParseCertificate L (Bytes block) of
             Inl err \<Rightarrow> Err (Wrapf ''failed to parse certificate'' err)
           | Inr cert \<Rightarrow> Ok cert))"

definition DecodePEMPrivateKey :: "('b, 'r) stdlib \<Rightarrow> 'b \<Rightarrow> rsa_PrivateKey result" where
  "DecodePEMPrivateKey L pemData =
     (case fst (pem_Decode L pemData) of
        None \<Rightarrow> Err (Errorf ''failed to parse PEM block'')
      | Some block \<Rightarrow>
          (case x509_ParsePKCS8PrivateKey L (Bytes block) of
             Inl err \<Rightarrow> Err (Wrapf ''failed to parse private key'' err)
           | Inr key \<Rightarrow>
               (case key of
                  RSA_PrivateKey rsaKey \<Rightarrow> Ok rsaKey
                | _ \<Rightarrow> Err (Errorf ''key is not an RSA private key''))))"

section \<open>Package fileio\<close>







record FileWriter =
  subdomain :: string






definition GetLeafCSRPath :: "FileWriter \<Rightarrow> string" where
  "GetLeafCSRPath fw = subdomain fw @ ''_leaf.csr''"





section \<open>What is assumed of the standard library\<close>

text \<open>
  DER carries times as whole seconds, so a parsed certificate has its template's times
  with the nanoseconds dropped.
\<close>

definition asn1_time :: "time_Time \<Rightarrow> time_Time" where
  "asn1_time t = (t div 1000000000) * 1000000000"

text \<open>\<open>rsa.GenerateKey\<close>: a key returned has a modulus of exactly the bits asked for.\<close>

definition rsa_contract :: "('b, 'r) stdlib \<Rightarrow> bool" where
  "rsa_contract L \<longleftrightarrow>
     (\<forall>rnd bits key rnd'.
        1024 \<le> bits \<longrightarrow> rsa_GenerateKey L rnd bits = (Inr key, rnd') \<longrightarrow>
        bitlen (N key) = bits)"

text \<open>\<open>rand.Int\<close>: a number returned is at least 0 and below the limit given.\<close>

definition rand_contract :: "('b, 'r) stdlib \<Rightarrow> bool" where
  "rand_contract L \<longleftrightarrow>
     (\<forall>rnd limit n rnd'.
        0 < limit \<longrightarrow> rand_Int L rnd limit = (Inr n, rnd') \<longrightarrow> 0 \<le> n \<and> n < limit)"

text \<open>
  \<open>x509.CreateCertificate\<close> followed by \<open>x509.ParseCertificate\<close>: the parsed
  certificate is version 3, carries the subject's public key and the template's serial
  number, common name, times (in whole seconds), key usage (its nine defined bits),
  extended key usage, basic constraints and DNS names, and its signature verifies under
  the public key of the signing key.
\<close>

definition x509_contract :: "('b, 'r) stdlib \<Rightarrow> bool" where
  "x509_contract L \<longleftrightarrow>
     (\<forall>rnd template parent pub priv certDER rnd' cert.
        x509_CreateCertificate L rnd template parent pub priv = (Inr certDER, rnd') \<longrightarrow>
        x509_ParseCertificate L certDER = Inr cert \<longrightarrow>
          Version cert = 3 \<and>
          PublicKeyAlgorithm cert = RSA \<and>
          PublicKey cert = Some pub \<and>
          SerialNumber cert = SerialNumber template \<and>
          CommonName (x509_Certificate.Subject cert) =
            CommonName (x509_Certificate.Subject template) \<and>
          NotBefore cert = asn1_time (NotBefore template) \<and>
          NotAfter cert = asn1_time (NotAfter template) \<and>
          x509_Certificate.KeyUsage cert = x509_Certificate.KeyUsage template AND 511 \<and>
          x509_Certificate.ExtKeyUsage cert = x509_Certificate.ExtKeyUsage template \<and>
          BasicConstraintsValid cert = BasicConstraintsValid template \<and>
          x509_Certificate.IsCA cert =
            (BasicConstraintsValid template \<and> x509_Certificate.IsCA template) \<and>
          x509_Certificate.DNSNames cert = x509_Certificate.DNSNames template \<and>
          checkSignature L (RawTBSCertificate cert) (Signature cert)
            (rsa_PublicKey.truncate priv) = None)"

text \<open>\<open>x509.ParseCertificate\<close> keeps the bytes it parsed in \<open>Raw\<close>.\<close>

definition x509_raw_contract :: "('b, 'r) stdlib \<Rightarrow> bool" where
  "x509_raw_contract L \<longleftrightarrow>
     (\<forall>der cert. x509_ParseCertificate L der = Inr cert \<longrightarrow> Raw cert = der)"

text \<open>
  What \<open>x509.CreateCertificate\<close> can encode. A DNS name must pass \<open>isIA5String\<close> of
  \<open>crypto/x509\<close> (every byte below 128). A subject field is written as a
  PrintableString or else as a UTF8String, so it must pass \<open>utf8.ValidString\<close>:
  well-formed UTF-8, with no overlong form, no surrogate and nothing above U+10FFFF.
  The serial number must not be negative, and the times must lie within the years 0 to
  9999 of ASN.1's GeneralizedTime.
\<close>

definition isIA5String :: "string \<Rightarrow> bool" where
  "isIA5String s \<longleftrightarrow> (\<forall>c \<in> set s. (of_char c :: nat) < 128)"

definition utf8_continuation :: "nat \<Rightarrow> bool" where
  "utf8_continuation b \<longleftrightarrow> 128 \<le> b \<and> b < 192"

fun utf8_Valid :: "nat list \<Rightarrow> bool" where
  "utf8_Valid [] = True"
| "utf8_Valid (b # bs) =
     (if b < 128 then utf8_Valid bs
      else if 194 \<le> b \<and> b < 224 then
        (case bs of
           c1 # r \<Rightarrow> utf8_continuation c1 \<and> utf8_Valid r
         | _ \<Rightarrow> False)
      else if 224 \<le> b \<and> b < 240 then
        (case bs of
           c1 # c2 # r \<Rightarrow>
             (if b = 224 then 160 \<le> c1 \<and> c1 < 192
              else if b = 237 then 128 \<le> c1 \<and> c1 < 160
              else utf8_continuation c1) \<and>
             utf8_continuation c2 \<and> utf8_Valid r
         | _ \<Rightarrow> False)
      else if 240 \<le> b \<and> b < 245 then
        (case bs of
           c1 # c2 # c3 # r \<Rightarrow>
             (if b = 240 then 144 \<le> c1 \<and> c1 < 192
              else if b = 244 then 128 \<le> c1 \<and> c1 < 144
              else utf8_continuation c1) \<and>
             utf8_continuation c2 \<and> utf8_continuation c3 \<and> utf8_Valid r
         | _ \<Rightarrow> False)
      else False)"

definition utf8_ValidString :: "string \<Rightarrow> bool" where
  "utf8_ValidString s = utf8_Valid (map of_char s)"

definition asn1_time_ok :: "time_Time \<Rightarrow> bool" where
  "asn1_time_ok t \<longleftrightarrow>
     - 62167219200 * 1000000000 \<le> t \<and> t < 253402300800 * 1000000000"

definition name_ok :: "pkix_Name \<Rightarrow> bool" where
  "name_ok n \<longleftrightarrow>
     (\<forall>s \<in> set (pkix_Name.Country n @ Province n @ pkix_Name.Locality n @
                  pkix_Name.Organization n @ pkix_Name.OrganizationalUnit n).
        utf8_ValidString s) \<and>
     utf8_ValidString (CommonName n)"

definition template_ok :: "'b x509_Certificate \<Rightarrow> bool" where
  "template_ok T \<longleftrightarrow>
     0 \<le> SerialNumber T \<and> name_ok (x509_Certificate.Subject T) \<and>
     (\<forall>d \<in> set (x509_Certificate.DNSNames T). isIA5String d) \<and>
     asn1_time_ok (NotBefore T) \<and> asn1_time_ok (NotAfter T)"

text \<open>
  \<open>x509.CreateCertificate\<close> refuses a signing key that does not match the public key
  of the parent, when the parent has one (a template that is its own parent has none).
\<close>

definition parent_key_ok :: "'b x509_Certificate \<Rightarrow> rsa_PrivateKey \<Rightarrow> bool" where
  "parent_key_ok parent priv \<longleftrightarrow>
     (case PublicKey parent of
        None \<Rightarrow> True
      | Some pub \<Rightarrow> pub = rsa_PublicKey.truncate priv)"

text \<open>
  With keys that \<open>rsa.GenerateKey\<close> returned (of 1024 bits or more), a template and a
  parent that can be encoded, the parent's public key (if it has one) being that of the
  signing key, are accepted by \<open>x509.CreateCertificate\<close>, and
  \<open>x509.ParseCertificate\<close> accepts the result.
\<close>

definition x509_accepts :: "('b, 'r) stdlib \<Rightarrow> bool" where
  "x509_accepts L \<longleftrightarrow>
     (\<forall>rnd0 bits0 key0 rnd0' rnd1 bits1 key1 rnd1' rnd T parent.
        1024 \<le> bits0 \<longrightarrow> rsa_GenerateKey L rnd0 bits0 = (Inr key0, rnd0') \<longrightarrow>
        1024 \<le> bits1 \<longrightarrow> rsa_GenerateKey L rnd1 bits1 = (Inr key1, rnd1') \<longrightarrow>
        template_ok T \<longrightarrow> name_ok (x509_Certificate.Subject parent) \<longrightarrow>
        parent_key_ok parent key1 \<longrightarrow>
        (\<exists>certDER rnd' cert.
           x509_CreateCertificate L rnd T parent (rsa_PublicKey.truncate key0) key1 =
             (Inr certDER, rnd') \<and>
           x509_ParseCertificate L certDER = Inr cert))"

text \<open>
  \<open>pem.Decode\<close> finds the block that \<open>pem.EncodeToMemory\<close> wrote, for the two labels
  the repository writes and no headers.
\<close>

definition pem_contract :: "('b, 'r) stdlib \<Rightarrow> bool" where
  "pem_contract L \<longleftrightarrow>
     (\<forall>ty bs.
        ty = ''CERTIFICATE'' \<or> ty = ''PRIVATE KEY'' \<longrightarrow>
        fst (pem_Decode L (pem_EncodeToMemory L \<lparr> Type = ty, Headers = [], Bytes = bs \<rparr>)) =
          Some \<lparr> Type = ty, Headers = [], Bytes = bs \<rparr>)"

text \<open>
  PKCS#8: a key that \<open>rsa.GenerateKey\<close> returned is marshalled, and parsing the
  result gives the key back; and no PKCS#8 encoding of a key parses as a certificate.
\<close>

definition pkcs8_contract :: "('b, 'r) stdlib \<Rightarrow> bool" where
  "pkcs8_contract L \<longleftrightarrow>
     (\<forall>rnd bits key rnd'.
        1024 \<le> bits \<longrightarrow> rsa_GenerateKey L rnd bits = (Inr key, rnd') \<longrightarrow>
        (\<exists>der. x509_MarshalPKCS8PrivateKey L key = Inr der \<and>
               x509_ParsePKCS8PrivateKey L der = Inr (RSA_PrivateKey key)))"

definition pkcs8_not_certificate :: "('b, 'r) stdlib \<Rightarrow> bool" where
  "pkcs8_not_certificate L \<longleftrightarrow>
     (\<forall>key der. x509_MarshalPKCS8PrivateKey L key = Inr der \<longrightarrow>
                isl (x509_ParseCertificate L der))"

section \<open>A symbolic standard library\<close>

text \<open>
  An implementation of the library over symbolic byte strings: an encoding is the term
  that says what it encodes, and a signature names the public key of its signer and the
  bytes signed. The entropy source is a list of numbers still to be drawn (an empty list
  fails). It satisfies every contract above, so the contracts can be met together, and
  it runs: the theorems below are applied to it at concrete inputs.
\<close>

datatype sym_tbs =
  SymTBS (tbs_SerialNumber: int) (tbs_Subject: pkix_Name) (tbs_Issuer: pkix_Name)
    (tbs_NotBefore: time_Time) (tbs_NotAfter: time_Time) (tbs_KeyUsage: int)
    (tbs_ExtKeyUsage: "x509_ExtKeyUsage list") (tbs_BasicConstraintsValid: bool)
    (tbs_IsCA: bool) (tbs_DNSNames: "string list") (tbs_PublicKey: rsa_PublicKey)

datatype sym_bytes =
    SymNil
  | SymTBSBytes sym_tbs
  | SymSignature rsa_PublicKey sym_tbs
  | SymCertificate sym_tbs rsa_PublicKey
  | SymPKCS8 crypto_PrivateKey
  | SymPEM string sym_bytes
  | SymText string

definition sym_GenerateKey :: "nat list \<Rightarrow> int \<Rightarrow> (error + rsa_PrivateKey) \<times> nat list" where
  "sym_GenerateKey rnd bits =
     (case rnd of
        [] \<Rightarrow> (Inl (Errorf ''EOF''), [])
      | n # rnd' \<Rightarrow>
          if bits < 2 then (Inl (Errorf ''crypto/rsa: too few primes of given length''), rnd')
          else (Inr \<lparr> N = 2 ^ nat (bits - 1) + int n mod 2 ^ nat (bits - 1), E = 65537,
                       D = int n, Primes = [] \<rparr>, rnd'))"

definition sym_Int :: "nat list \<Rightarrow> int \<Rightarrow> (error + int) \<times> nat list" where
  "sym_Int rnd limit =
     (case rnd of
        [] \<Rightarrow> (Inl (Errorf ''EOF''), [])
      | n # rnd' \<Rightarrow> (Inr (int n mod limit), rnd'))"

definition sym_CreateCertificate ::
  "nat list \<Rightarrow> sym_bytes x509_Certificate \<Rightarrow> sym_bytes x509_Certificate \<Rightarrow> rsa_PublicKey
    \<Rightarrow> rsa_PrivateKey \<Rightarrow> (error + sym_bytes) \<times> nat list" where
  "sym_CreateCertificate rnd template parent pub priv =
     (if \<not> parent_key_ok parent priv
      then (Inl (Errorf ''x509: provided PrivateKey does not match the PublicKey of the parent''),
            rnd)
      else if template_ok template \<and> name_ok (x509_Certificate.Subject parent)
      then (Inr (SymCertificate
                   (SymTBS (SerialNumber template) (x509_Certificate.Subject template)
                      (x509_Certificate.Subject parent)
                      (asn1_time (NotBefore template)) (asn1_time (NotAfter template))
                      (x509_Certificate.KeyUsage template AND 511)
                      (x509_Certificate.ExtKeyUsage template)
                      (BasicConstraintsValid template)
                      (BasicConstraintsValid template \<and> x509_Certificate.IsCA template)
                      (x509_Certificate.DNSNames template) pub)
                   (rsa_PublicKey.truncate priv)), rnd)
      else (Inl (Errorf ''x509: cannot encode the certificate''), rnd))"

definition sym_ParseCertificate :: "sym_bytes \<Rightarrow> error + sym_bytes x509_Certificate" where
  "sym_ParseCertificate der =
     (case der of
        SymCertificate tbs signer \<Rightarrow>
          Inr \<lparr> Raw = der, RawTBSCertificate = SymTBSBytes tbs,
                Signature = SymSignature signer tbs,
                PublicKeyAlgorithm = RSA, PublicKey = Some (tbs_PublicKey tbs), Version = 3,
                SerialNumber = tbs_SerialNumber tbs, Subject = tbs_Subject tbs,
                NotBefore = tbs_NotBefore tbs, NotAfter = tbs_NotAfter tbs,
                KeyUsage = tbs_KeyUsage tbs, ExtKeyUsage = tbs_ExtKeyUsage tbs,
                BasicConstraintsValid = tbs_BasicConstraintsValid tbs, IsCA = tbs_IsCA tbs,
                DNSNames = tbs_DNSNames tbs \<rparr>
      | _ \<Rightarrow> Inl (Errorf ''x509: malformed certificate''))"

definition sym_checkSignature :: "sym_bytes \<Rightarrow> sym_bytes \<Rightarrow> rsa_PublicKey \<Rightarrow> error option" where
  "sym_checkSignature tbsBytes signature pub =
     (case tbsBytes of
        SymTBSBytes tbs \<Rightarrow>
          if signature = SymSignature pub tbs then None
          else Some (Errorf ''crypto/rsa: verification error'')
      | _ \<Rightarrow> Some (Errorf ''crypto/rsa: verification error''))"

definition sym_ParsePKCS8PrivateKey :: "sym_bytes \<Rightarrow> error + crypto_PrivateKey" where
  "sym_ParsePKCS8PrivateKey der =
     (case der of
        SymPKCS8 key \<Rightarrow> Inr key
      | _ \<Rightarrow> Inl (Errorf ''x509: failed to parse private key''))"

definition sym_Decode :: "sym_bytes \<Rightarrow> sym_bytes pem_Block option \<times> sym_bytes" where
  "sym_Decode pemData =
     (case pemData of
        SymPEM ty bs \<Rightarrow> (Some \<lparr> Type = ty, Headers = [], Bytes = bs \<rparr>, SymNil)
      | _ \<Rightarrow> (None, pemData))"

definition sym_EncodeToString :: "sym_bytes \<Rightarrow> string" where
  "sym_EncodeToString bs = (case bs of SymText s \<Rightarrow> s | _ \<Rightarrow> [])"

definition symlib :: "(sym_bytes, nat list) stdlib" where
  "symlib =
     \<lparr> nil_bytes = SymNil,
       rsa_GenerateKey = sym_GenerateKey,
       rand_Int = sym_Int,
       x509_CreateCertificate = sym_CreateCertificate,
       x509_ParseCertificate = sym_ParseCertificate,
       checkSignature = sym_checkSignature,
       x509_MarshalPKCS8PrivateKey = (\<lambda>key. Inr (SymPKCS8 (RSA_PrivateKey key))),
       x509_ParsePKCS8PrivateKey = sym_ParsePKCS8PrivateKey,
       pem_EncodeToMemory = (\<lambda>b. SymPEM (Type b) (Bytes b)),
       pem_Decode = sym_Decode,
       base64_EncodeToString = sym_EncodeToString \<rparr>"






section \<open>Example inputs\<close>

text \<open>A configuration, an instant and entropy at which the theorems are applied.\<close>

definition example_config :: CertificateConfig where
  "example_config =
     NewCertificateConfig \<lparr> Domain := ''example.com'', ValidityDays := 90, KeySize := 2048 \<rparr>"

text \<open>
  The same with an empty domain, and with an organization name that is not ASCII: Cafe
  with an acute accent on its last letter, which UTF-8 writes as the two bytes C3 A9.
\<close>

definition example_config_empty_domain :: CertificateConfig where
  "example_config_empty_domain =
     example_config \<lparr> Domain := [],
       CertificateConfig.Organization := ''Caf'' @ [CHR 0xC3, CHR 0xA9] \<rparr>"

definition example_now :: time_Time where
  "example_now = 1722124800123456789"

text \<open>
  The key and the certificate encoding that \<open>GenerateRootCA\<close> returns on the symbolic
  library at the example configuration, with entropy \<open>[11, 42]\<close>.
\<close>

definition example_key :: rsa_PrivateKey where
  "example_key = \<lparr> N = 2 ^ 2047 + 11, E = 65537, D = 11, Primes = [] \<rparr>"

definition example_name :: pkix_Name where
  "example_name =
     \<lparr> Country = [''SG''], Province = [''Singapore''], Locality = [''Singapore''],
       Organization = [''Erfi Corp''], OrganizationalUnit = [''Erfi Proxy''],
       CommonName = ''example.com'' \<rparr>"

definition example_root_der :: sym_bytes where
  "example_root_der =
     SymCertificate
       (SymTBS 42 example_name example_name 1722124800000000000 1810598400000000000 96
          [ExtKeyUsageServerAuth] True True [''example.com'']
          (rsa_PublicKey.truncate example_key))
       (rsa_PublicKey.truncate example_key)"

text \<open>The same certificate bytes in a PEM envelope with the label of a private key.\<close>

definition mislabelled_pem :: sym_bytes where
  "mislabelled_pem =
     pem_EncodeToMemory symlib
       \<lparr> Type = ''PRIVATE KEY'', Headers = [], Bytes = example_root_der \<rparr>"


section \<open>Auxiliary facts\<close>

lemma GeneratePrivateKey_OkD:
  assumes "GeneratePrivateKey L g rnd = (Ok key, r1)"
  shows "\<exists>c. config g = Some c \<and> 1024 \<le> KeySize c \<and>
             rsa_GenerateKey L rnd (KeySize c) = (Inr key, r1)"
  using assms
  by (auto simp: GeneratePrivateKey_def split: option.splits if_splits prod.splits sum.splits)

lemma GenerateRootCA_OkD:
  assumes "GenerateRootCA L g now rnd = (Ok (cert, key), rnd')"
  shows "\<exists>c r1 serialNumber r2 certDER.
           config g = Some c \<and> 1024 \<le> KeySize c \<and>
           rsa_GenerateKey L rnd (KeySize c) = (Inr key, r1) \<and>
           rand_Int L r1 (2 ^ 128) = (Inr serialNumber, r2) \<and>
           x509_CreateCertificate L r2
             (RootCATemplate L (GetRootCAOptions c now) serialNumber)
             (RootCATemplate L (GetRootCAOptions c now) serialNumber)
             (rsa_PublicKey.truncate key) key = (Inr certDER, rnd') \<and>
           x509_ParseCertificate L certDER = Inr cert"
proof -
  obtain res r1 where gk: "GeneratePrivateKey L g rnd = (res, r1)"
    by (cases "GeneratePrivateKey L g rnd")
  with assms obtain key0 where res: "res = Ok key0"
    by (cases res) (auto simp: GenerateRootCA_def)
  from GeneratePrivateKey_OkD [OF gk [unfolded res]] obtain c where
    c: "config g = Some c" "1024 \<le> KeySize c" "rsa_GenerateKey L rnd (KeySize c) = (Inr key0, r1)"
    by blast
  from assms gk res c show ?thesis
    by (auto simp: GenerateRootCA_def Let_def split: prod.splits sum.splits)
qed

lemma asn1_time_add:
  "asn1_time (t + k * 1000000000) = asn1_time t + k * 1000000000"
  by (simp add: asn1_time_def algebra_simps)

text \<open>The symbolic library meets the contracts.\<close>

lemma symlib_rsa_contract: "rsa_contract symlib"
proof -
  have "bitlen (2 ^ nat (bits - 1) + int n mod 2 ^ nat (bits - 1)) = bits"
    if "1024 \<le> bits" for bits :: int and n :: nat
  proof -
    have "bitlen (2 ^ nat (bits - 1) + int n mod 2 ^ nat (bits - 1)) = int (nat (bits - 1)) + 1"
      by (simp add: bitlen_twopow_add_eq)
    with that show ?thesis by simp
  qed
  then show ?thesis
    by (auto simp: rsa_contract_def symlib_def sym_GenerateKey_def split: list.splits if_splits)
qed

lemma symlib_rand_contract: "rand_contract symlib"
  by (auto simp: rand_contract_def symlib_def sym_Int_def split: list.splits)

lemma symlib_x509_contract: "x509_contract symlib"
  by (auto simp: x509_contract_def symlib_def sym_CreateCertificate_def parent_key_ok_def
      sym_ParseCertificate_def sym_checkSignature_def split: if_splits)

lemma symlib_x509_raw_contract: "x509_raw_contract symlib"
  by (auto simp: x509_raw_contract_def symlib_def sym_ParseCertificate_def
      split: sym_bytes.splits)

lemma symlib_x509_accepts: "x509_accepts symlib"
  by (simp add: x509_accepts_def symlib_def sym_CreateCertificate_def parent_key_ok_def
      sym_ParseCertificate_def)

lemma symlib_pem_contract: "pem_contract symlib"
  by (simp add: pem_contract_def symlib_def sym_Decode_def)

lemma symlib_pkcs8_contract: "pkcs8_contract symlib"
  by (simp add: pkcs8_contract_def symlib_def sym_ParsePKCS8PrivateKey_def)

lemma symlib_pkcs8_not_certificate: "pkcs8_not_certificate symlib"
  by (auto simp: pkcs8_not_certificate_def symlib_def sym_ParseCertificate_def)


lemma isIA5String_Nil [simp]: "isIA5String []"
  by (simp add: isIA5String_def)

text \<open>A string of ASCII bytes is valid UTF-8.\<close>

lemma utf8_Valid_ascii: "\<forall>b \<in> set bs. b < 128 \<Longrightarrow> utf8_Valid bs"
  by (induction bs) auto

lemma utf8_ValidString_IA5 [simp]: "isIA5String s \<Longrightarrow> utf8_ValidString s"
  by (simp add: isIA5String_def utf8_ValidString_def utf8_Valid_ascii)

lemma sym_GenerateRootCA_runs:
  "\<exists>cert key. GenerateRootCA symlib (NewGenerator (Some example_config)) example_now [11, 42]
      = (Ok (cert, key), [])"
  by (simp add: GenerateRootCA_def GeneratePrivateKey_def NewGenerator_def example_config_def
      NewCertificateConfig_def symlib_def sym_GenerateKey_def sym_Int_def
      sym_CreateCertificate_def parent_key_ok_def sym_ParseCertificate_def RootCATemplate_def
      GetRootCAOptions_def template_ok_def name_ok_def isIA5String_def asn1_time_ok_def
      time_Add_def time_Hour_def time_Minute_def time_Second_def example_now_def Let_def)


lemma leaf_validity:
  assumes "1 \<le> d" "d \<le> 36500"
  shows "sint (word_of_int d * 24 * time_Hour :: 64 word) = d * 86400000000000"
proof -
  have a: "sint (word_of_int (d * 86400000000000) :: 64 word) = d * 86400000000000"
    unfolding signed_of_int using assms by (simp add: signed_take_bit_int_eq_self)
  have b: "word_of_int d * 24 * time_Hour = (word_of_int (d * 86400000000000) :: 64 word)"
    by (simp add: time_Hour_def time_Minute_def time_Second_def)
  show ?thesis
    unfolding b by (rule a)
qed

lemma GenerateRootCA_fields:
  assumes "x509_contract L"
    and "GenerateRootCA L g now rnd = (Ok (cert, key), rnd')"
  shows "\<exists>c. config g = Some c \<and> 1024 \<le> KeySize c \<and>
           Version cert = 3 \<and> PublicKeyAlgorithm cert = RSA \<and>
           PublicKey cert = Some (rsa_PublicKey.truncate key) \<and>
           CommonName (x509_Certificate.Subject cert) = Domain c \<and>
           NotBefore cert = asn1_time now \<and>
           NotAfter cert = asn1_time now + 1024 * (24 * 3600 * 1000000000) \<and>
           x509_Certificate.KeyUsage cert = 96 \<and>
           x509_Certificate.ExtKeyUsage cert = [ExtKeyUsageServerAuth] \<and>
           BasicConstraintsValid cert \<and> x509_Certificate.IsCA cert \<and>
           x509_Certificate.DNSNames cert = [Domain c] \<and>
           checkSignature L (RawTBSCertificate cert) (Signature cert)
             (rsa_PublicKey.truncate key) = None"
proof -
  from GenerateRootCA_OkD [OF assms(2)] obtain c r1 serialNumber r2 certDER where
    c: "config g = Some c" "1024 \<le> KeySize c"
    and cr: "x509_CreateCertificate L r2
             (RootCATemplate L (GetRootCAOptions c now) serialNumber)
             (RootCATemplate L (GetRootCAOptions c now) serialNumber)
             (rsa_PublicKey.truncate key) key = (Inr certDER, rnd')"
    and pa: "x509_ParseCertificate L certDER = Inr cert"
    by blast
  let ?T = "RootCATemplate L (GetRootCAOptions c now) serialNumber"
  from assms(1) cr pa have
    f: "Version cert = 3" "PublicKeyAlgorithm cert = RSA"
       "PublicKey cert = Some (rsa_PublicKey.truncate key)"
       "NotBefore cert = asn1_time (NotBefore ?T)"
       "NotAfter cert = asn1_time (NotAfter ?T)"
       "x509_Certificate.KeyUsage cert = x509_Certificate.KeyUsage ?T AND 511"
       "BasicConstraintsValid cert = BasicConstraintsValid ?T"
       "x509_Certificate.IsCA cert = (BasicConstraintsValid ?T \<and> x509_Certificate.IsCA ?T)"
       "x509_Certificate.DNSNames cert = x509_Certificate.DNSNames ?T"
       "checkSignature L (RawTBSCertificate cert) (Signature cert) (rsa_PublicKey.truncate key) = None"
       "x509_Certificate.ExtKeyUsage cert = x509_Certificate.ExtKeyUsage ?T"
       "CommonName (x509_Certificate.Subject cert) = CommonName (x509_Certificate.Subject ?T)"
    unfolding x509_contract_def by blast+
  have ku: "x509_Certificate.KeyUsage cert = 96"
    using f(6) by (simp add: RootCATemplate_def KeyUsageCertSign_def KeyUsageCRLSign_def)
  have ca: "x509_Certificate.IsCA cert" "BasicConstraintsValid cert"
    using f(7,8) by (simp_all add: RootCATemplate_def)
  have dns: "x509_Certificate.DNSNames cert = [Domain c]"
    using f(9) by (simp add: RootCATemplate_def GetRootCAOptions_def)
  have eku: "x509_Certificate.ExtKeyUsage cert = [ExtKeyUsageServerAuth]"
    using f(11) by (simp add: RootCATemplate_def)
  have cn: "CommonName (x509_Certificate.Subject cert) = Domain c"
    using f(12) by (simp add: RootCATemplate_def GetRootCAOptions_def)
  have nb: "NotBefore cert = asn1_time now"
    using f(4) by (simp add: RootCATemplate_def GetRootCAOptions_def)
  have "NotAfter cert = asn1_time (now + 1024 * (24 * 3600) * 1000000000)"
    using f(5) by (simp add: RootCATemplate_def GetRootCAOptions_def time_Add_def
        time_Hour_def time_Minute_def time_Second_def)
  also have "\<dots> = asn1_time now + 1024 * (24 * 3600) * 1000000000"
    by (rule asn1_time_add)
  finally have na: "NotAfter cert = asn1_time now + 1024 * (24 * 3600 * 1000000000)"
    by simp
  from c f(1,2,3,10) ku ca dns eku cn nb na show ?thesis
    by simp
qed

section \<open>The claims\<close>

text \<open>
  Claim C1. For every configuration, whatever its \<open>ValidityDays\<close>, a certificate that
  \<open>GenerateRootCA\<close> returns is a CA certificate, its signature verifies against itself
  (\<open>CheckSignatureFrom\<close> on itself gives no error), its key usage is exactly
  certificate-signing and CRL-signing, its DNS names are exactly the configured domain,
  and its \<open>NotAfter\<close> is its \<open>NotBefore\<close> plus exactly 1024 days.
\<close>

theorem GenerateRootCA_certificate:
  assumes "x509_contract L"
    and "GenerateRootCA L g now rnd = (Ok (cert, key), rnd')"
  shows "x509_Certificate.IsCA cert \<and>
         CheckSignatureFrom L cert cert = None \<and>
         x509_Certificate.KeyUsage cert = KeyUsageCertSign OR KeyUsageCRLSign \<and>
         (\<exists>c. config g = Some c \<and> x509_Certificate.DNSNames cert = [Domain c]) \<and>
         NotAfter cert = NotBefore cert + 1024 * (24 * 3600 * 1000000000)"
proof -
  from GenerateRootCA_fields [OF assms] obtain c where
    c: "config g = Some c" "x509_Certificate.DNSNames cert = [Domain c]"
    and f: "Version cert = 3" "PublicKeyAlgorithm cert = RSA"
       "PublicKey cert = Some (rsa_PublicKey.truncate key)"
       "x509_Certificate.KeyUsage cert = 96"
       "BasicConstraintsValid cert" "x509_Certificate.IsCA cert"
       "checkSignature L (RawTBSCertificate cert) (Signature cert)
             (rsa_PublicKey.truncate key) = None"
    and t: "NotBefore cert = asn1_time now"
       "NotAfter cert = asn1_time now + 1024 * (24 * 3600 * 1000000000)"
    by blast
  have sig: "CheckSignatureFrom L cert cert = None"
    using f by (simp add: CheckSignatureFrom_def KeyUsageCertSign_def)
  from c f(4,6) sig t show ?thesis
    by (simp add: KeyUsageCertSign_def KeyUsageCRLSign_def)
qed

text \<open>Claim C1 at the example configuration, on the symbolic library.\<close>

theorem GenerateRootCA_certificate_witness:
  "x509_contract symlib \<and>
   (\<exists>cert key.
      GenerateRootCA symlib (NewGenerator (Some example_config)) example_now [11, 42]
        = (Ok (cert, key), []) \<and>
      x509_Certificate.IsCA cert \<and>
      CheckSignatureFrom symlib cert cert = None \<and>
      x509_Certificate.KeyUsage cert = KeyUsageCertSign OR KeyUsageCRLSign \<and>
      x509_Certificate.DNSNames cert = [''example.com''] \<and>
      NotAfter cert = NotBefore cert + 1024 * (24 * 3600 * 1000000000))"
proof -
  from sym_GenerateRootCA_runs obtain cert key where
    run: "GenerateRootCA symlib (NewGenerator (Some example_config)) example_now [11, 42]
      = (Ok (cert, key), [])"
    by blast
  from GenerateRootCA_certificate [OF symlib_x509_contract run] run symlib_x509_contract
  show ?thesis
    by (auto simp: NewGenerator_def example_config_def)
qed

text \<open>
  Claim C3. \<open>GeneratePrivateKey\<close> returns an error when the configuration is nil or
  the key size is below 1024 (zero and negative sizes included). With a configuration and
  a key size of at least 1024 its only error is the failure of the entropy source inside
  \<open>rsa.GenerateKey\<close>; otherwise it returns the generated key, whose modulus has exactly
  the number of bits asked for.
\<close>

theorem GeneratePrivateKey_errors:
  assumes "rsa_contract L"
  shows "(config g = None \<or> (\<exists>c. config g = Some c \<and> KeySize c < 1024)
            \<longrightarrow> isErr (fst (GeneratePrivateKey L g rnd))) \<and>
         (\<forall>c. config g = Some c \<and> 1024 \<le> KeySize c \<longrightarrow>
            (case fst (rsa_GenerateKey L rnd (KeySize c)) of
               Inl err \<Rightarrow>
                 fst (GeneratePrivateKey L g rnd) =
                   Err (Wrapf ''failed to generate private key'' err)
             | Inr key \<Rightarrow>
                 fst (GeneratePrivateKey L g rnd) = Ok key \<and> bitlen (N key) = KeySize c))"
proof -
  have "bitlen (N key) = KeySize c"
    if "1024 \<le> KeySize c" "rsa_GenerateKey L rnd (KeySize c) = (Inr key, r)" for c key r
    using assms that unfolding rsa_contract_def by blast
  then show ?thesis
    by (auto simp: GeneratePrivateKey_def split: option.splits sum.splits prod.splits)
qed

text \<open>Claim C3 with a nil configuration, a 512-bit and a 2048-bit key size.\<close>

theorem GeneratePrivateKey_errors_witness:
  "rsa_contract symlib \<and>
   isErr (fst (GeneratePrivateKey symlib (NewGenerator None) [11])) \<and>
   isErr (fst (GeneratePrivateKey symlib
                 (NewGenerator (Some (example_config \<lparr> KeySize := 512 \<rparr>))) [11])) \<and>
   (\<exists>key. fst (GeneratePrivateKey symlib (NewGenerator (Some example_config)) [11]) = Ok key \<and>
          bitlen (N key) = 2048)"
  using GeneratePrivateKey_errors [OF symlib_rsa_contract,
      of "NewGenerator (Some example_config)" "[11]"]
    GeneratePrivateKey_errors [OF symlib_rsa_contract, of "NewGenerator None" "[11]"]
    GeneratePrivateKey_errors [OF symlib_rsa_contract,
      of "NewGenerator (Some (example_config \<lparr> KeySize := 512 \<rparr>))" "[11]"]
    symlib_rsa_contract
  by (simp add: NewGenerator_def example_config_def symlib_def sym_GenerateKey_def)

lemma GenerateLeafCertificate_OkD:
  assumes "GenerateLeafCertificate L g caCert caKey now rnd = (Ok (cert, key), rnd')"
  shows "\<exists>c r1 serialNumber r2 certDER parent priv.
           config g = Some c \<and> 1024 \<le> KeySize c \<and>
           rsa_GenerateKey L rnd (KeySize c) = (Inr key, r1) \<and>
           rand_Int L r1 (2 ^ 128) = (Inr serialNumber, r2) \<and>
           caCert = Some parent \<and> caKey = Some priv \<and>
           x509_CreateCertificate L r2
             (LeafTemplate L (GetLeafCertOptions c now) serialNumber) parent
             (rsa_PublicKey.truncate key) priv = (Inr certDER, rnd') \<and>
           x509_ParseCertificate L certDER = Inr cert"
proof -
  obtain res r1 where gk: "GeneratePrivateKey L g rnd = (res, r1)"
    by (cases "GeneratePrivateKey L g rnd")
  with assms obtain key0 where res: "res = Ok key0"
    by (cases res) (auto simp: GenerateLeafCertificate_def)
  from GeneratePrivateKey_OkD [OF gk [unfolded res]] obtain c where
    c: "config g = Some c" "1024 \<le> KeySize c" "rsa_GenerateKey L rnd (KeySize c) = (Inr key0, r1)"
    by blast
  from assms gk res c show ?thesis
    by (auto simp: GenerateLeafCertificate_def Let_def split: prod.splits sum.splits option.splits)
qed

lemma GenerateLeafCertificate_fields:
  assumes "x509_contract L"
    and "GenerateLeafCertificate L g caCert caKey now rnd = (Ok (cert, key), rnd')"
  shows "\<exists>c priv. config g = Some c \<and> caKey = Some priv \<and>
           NotBefore cert = asn1_time now \<and>
           NotAfter cert =
             asn1_time (now + sint (word_of_int (ValidityDays c) * 24 * time_Hour :: 64 word)) \<and>
           x509_Certificate.KeyUsage cert = 5 \<and>
           x509_Certificate.ExtKeyUsage cert = [ExtKeyUsageServerAuth, ExtKeyUsageClientAuth] \<and>
           \<not> x509_Certificate.IsCA cert \<and>
           x509_Certificate.DNSNames cert = [Domain c] \<and>
           checkSignature L (RawTBSCertificate cert) (Signature cert)
             (rsa_PublicKey.truncate priv) = None"
proof -
  from GenerateLeafCertificate_OkD [OF assms(2)] obtain c r2 serialNumber certDER parent priv where
    c: "config g = Some c" "caKey = Some priv"
    and cr: "x509_CreateCertificate L r2
             (LeafTemplate L (GetLeafCertOptions c now) serialNumber) parent
             (rsa_PublicKey.truncate key) priv = (Inr certDER, rnd')"
    and pa: "x509_ParseCertificate L certDER = Inr cert"
    by blast
  let ?T = "LeafTemplate L (GetLeafCertOptions c now) serialNumber"
  from assms(1) cr pa have
    f: "NotBefore cert = asn1_time (NotBefore ?T)"
       "NotAfter cert = asn1_time (NotAfter ?T)"
       "x509_Certificate.KeyUsage cert = x509_Certificate.KeyUsage ?T AND 511"
       "x509_Certificate.IsCA cert = (BasicConstraintsValid ?T \<and> x509_Certificate.IsCA ?T)"
       "x509_Certificate.DNSNames cert = x509_Certificate.DNSNames ?T"
       "checkSignature L (RawTBSCertificate cert) (Signature cert) (rsa_PublicKey.truncate priv) = None"
       "x509_Certificate.ExtKeyUsage cert = x509_Certificate.ExtKeyUsage ?T"
    unfolding x509_contract_def by blast+
  have ku: "x509_Certificate.KeyUsage cert = 5"
    using f(3) by (simp add: LeafTemplate_def KeyUsageDigitalSignature_def
        KeyUsageKeyEncipherment_def)
  have nb: "NotBefore cert = asn1_time now"
    using f(1) by (simp add: LeafTemplate_def GetLeafCertOptions_def)
  have na: "NotAfter cert =
      asn1_time (now + sint (word_of_int (ValidityDays c) * 24 * time_Hour :: 64 word))"
    using f(2) by (simp add: LeafTemplate_def GetLeafCertOptions_def time_Add_def)
  have rest: "x509_Certificate.ExtKeyUsage cert = [ExtKeyUsageServerAuth, ExtKeyUsageClientAuth]"
    "\<not> x509_Certificate.IsCA cert" "x509_Certificate.DNSNames cert = [Domain c]"
    using f(4,5,7) by (simp_all add: LeafTemplate_def GetLeafCertOptions_def)
  from c f(6) ku nb na rest show ?thesis
    by blast
qed

text \<open>
  Claim C2. With \<open>ValidityDays\<close> between 1 and 36500 and a CA certificate and key that
  \<open>GenerateRootCA\<close> returned, a certificate that \<open>GenerateLeafCertificate\<close> returns
  is not a CA certificate, its signature verifies against the CA certificate, its
  extended key usage holds server-auth and client-auth, and \<open>NotAfter\<close> minus
  \<open>NotBefore\<close> is \<open>ValidityDays\<close> times 24 hours: exactly, hence within one minute.
\<close>

theorem GenerateLeafCertificate_certificate:
  assumes "x509_contract L"
    and "GenerateRootCA L g0 now0 rnd0 = (Ok (caCert, caKey), rnd1)"
    and "GenerateLeafCertificate L g (Some caCert) (Some caKey) now rnd = (Ok (cert, key), rnd')"
    and "config g = Some c"
    and "1 \<le> ValidityDays c" and "ValidityDays c \<le> 36500"
  shows "\<not> x509_Certificate.IsCA cert \<and>
         CheckSignatureFrom L cert caCert = None \<and>
         ExtKeyUsageServerAuth \<in> set (x509_Certificate.ExtKeyUsage cert) \<and>
         ExtKeyUsageClientAuth \<in> set (x509_Certificate.ExtKeyUsage cert) \<and>
         NotAfter cert - NotBefore cert = ValidityDays c * (24 * 3600 * 1000000000) \<and>
         \<bar>(NotAfter cert - NotBefore cert) - ValidityDays c * (24 * 3600 * 1000000000)\<bar>
           \<le> 60 * 1000000000"
proof -
  from GenerateRootCA_fields [OF assms(1,2)] have
    ca: "Version caCert = 3" "PublicKeyAlgorithm caCert = RSA"
       "PublicKey caCert = Some (rsa_PublicKey.truncate caKey)"
       "x509_Certificate.KeyUsage caCert = 96"
       "BasicConstraintsValid caCert" "x509_Certificate.IsCA caCert"
    by blast+
  from GenerateLeafCertificate_fields [OF assms(1,3)] assms(4) have
    lf: "NotBefore cert = asn1_time now"
       "NotAfter cert =
          asn1_time (now + sint (word_of_int (ValidityDays c) * 24 * time_Hour :: 64 word))"
       "x509_Certificate.ExtKeyUsage cert = [ExtKeyUsageServerAuth, ExtKeyUsageClientAuth]"
       "\<not> x509_Certificate.IsCA cert"
       "checkSignature L (RawTBSCertificate cert) (Signature cert)
             (rsa_PublicKey.truncate caKey) = None"
    by auto
  have sig: "CheckSignatureFrom L cert caCert = None"
    using ca lf(5) by (simp add: CheckSignatureFrom_def KeyUsageCertSign_def)
  have s: "sint (word_of_int (ValidityDays c) * 24 * time_Hour :: 64 word)
      = ValidityDays c * 86400 * 1000000000"
    using leaf_validity [OF assms(5,6)] by simp
  have "NotAfter cert = asn1_time (now + ValidityDays c * 86400 * 1000000000)"
    by (simp only: lf(2) s)
  also have "\<dots> = asn1_time now + ValidityDays c * 86400 * 1000000000"
    by (rule asn1_time_add)
  finally have "NotAfter cert - NotBefore cert = ValidityDays c * (24 * 3600 * 1000000000)"
    using lf(1) by simp
  with sig lf(3,4) show ?thesis
    by simp
qed

lemma sym_GenerateLeafCertificate_runs:
  "\<exists>caCert caKey cert key.
     GenerateRootCA symlib (NewGenerator (Some example_config)) example_now [11, 42]
       = (Ok (caCert, caKey), []) \<and>
     GenerateLeafCertificate symlib (NewGenerator (Some example_config))
       (Some caCert) (Some caKey) (example_now + 5000000000) [13, 44] = (Ok (cert, key), [])"
  by (simp add: GenerateRootCA_def GenerateLeafCertificate_def GeneratePrivateKey_def
      NewGenerator_def example_config_def
      NewCertificateConfig_def symlib_def sym_GenerateKey_def sym_Int_def
      sym_CreateCertificate_def parent_key_ok_def sym_ParseCertificate_def RootCATemplate_def LeafTemplate_def
      GetRootCAOptions_def GetLeafCertOptions_def template_ok_def name_ok_def isIA5String_def
      asn1_time_ok_def
      time_Add_def time_Hour_def time_Minute_def time_Second_def example_now_def Let_def)

text \<open>
  Claim C2 at the example configuration (90 days), the leaf generated five seconds
  after the CA.
\<close>

theorem GenerateLeafCertificate_certificate_witness:
  "x509_contract symlib \<and>
   (\<exists>caCert caKey cert key.
     GenerateRootCA symlib (NewGenerator (Some example_config)) example_now [11, 42]
       = (Ok (caCert, caKey), []) \<and>
     GenerateLeafCertificate symlib (NewGenerator (Some example_config))
       (Some caCert) (Some caKey) (example_now + 5000000000) [13, 44] = (Ok (cert, key), []) \<and>
     \<not> x509_Certificate.IsCA cert \<and>
     CheckSignatureFrom symlib cert caCert = None \<and>
     ExtKeyUsageServerAuth \<in> set (x509_Certificate.ExtKeyUsage cert) \<and>
     ExtKeyUsageClientAuth \<in> set (x509_Certificate.ExtKeyUsage cert) \<and>
     NotAfter cert - NotBefore cert = 90 * (24 * 3600 * 1000000000))"
proof -
  from sym_GenerateLeafCertificate_runs obtain caCert caKey cert key where
    ca: "GenerateRootCA symlib (NewGenerator (Some example_config)) example_now [11, 42]
       = (Ok (caCert, caKey), [])"
    and lf: "GenerateLeafCertificate symlib (NewGenerator (Some example_config))
       (Some caCert) (Some caKey) (example_now + 5000000000) [13, 44] = (Ok (cert, key), [])"
    by blast
  have c: "config (NewGenerator (Some example_config)) = Some example_config"
    by (simp add: NewGenerator_def)
  have d: "1 \<le> ValidityDays example_config" "ValidityDays example_config \<le> 36500"
    by (simp_all add: example_config_def)
  from GenerateLeafCertificate_certificate [OF symlib_x509_contract ca lf c d]
  have "\<not> x509_Certificate.IsCA cert \<and>
     CheckSignatureFrom symlib cert caCert = None \<and>
     ExtKeyUsageServerAuth \<in> set (x509_Certificate.ExtKeyUsage cert) \<and>
     ExtKeyUsageClientAuth \<in> set (x509_Certificate.ExtKeyUsage cert) \<and>
     NotAfter cert - NotBefore cert = 90 * (24 * 3600 * 1000000000)"
    by (simp add: example_config_def)
  with ca lf symlib_x509_contract show ?thesis
    by blast
qed

text \<open>
  Claim C6. With the empty string as the configured domain (and a key size of at least
  1024), \<open>GenerateRootCA\<close> has no error of its own: it never panics, and an error it
  returns is the wrapped failure of one of its four library calls. A certificate it
  returns has an empty common name and exactly one DNS name, the empty string. And it
  does return one whenever the library can: the subject fields are valid UTF-8, the
  clock is within the years ASN.1 can write, and the entropy source delivers the key and
  the serial number.
\<close>

theorem GenerateRootCA_empty_domain:
  assumes "config g = Some c" and "Domain c = []" and "1024 \<le> KeySize c"
  shows "fst (GenerateRootCA L g now rnd) \<noteq> Panic \<and>
         (\<forall>err. fst (GenerateRootCA L g now rnd) = Err err \<longrightarrow>
            (\<exists>cause. err = Wrapf ''failed to generate private key'' cause \<or>
                     err = Wrapf ''failed to generate serial number'' cause \<or>
                     err = Wrapf ''failed to create root CA certificate'' cause \<or>
                     err = Wrapf ''failed to parse root CA certificate'' cause)) \<and>
         (x509_contract L \<longrightarrow>
            (\<forall>cert key rnd'. GenerateRootCA L g now rnd = (Ok (cert, key), rnd') \<longrightarrow>
               CommonName (x509_Certificate.Subject cert) = [] \<and>
               x509_Certificate.DNSNames cert = [[]])) \<and>
         (x509_contract L \<longrightarrow> x509_accepts L \<longrightarrow> rand_contract L \<longrightarrow>
          utf8_ValidString (CertificateConfig.Country c) \<longrightarrow>
          utf8_ValidString (CertificateConfig.State c) \<longrightarrow>
          utf8_ValidString (CertificateConfig.Locality c) \<longrightarrow>
          utf8_ValidString (CertificateConfig.Organization c) \<longrightarrow>
          utf8_ValidString (CertificateConfig.OrganizationalUnit c) \<longrightarrow>
          asn1_time_ok now \<longrightarrow> asn1_time_ok (now + 1024 * (24 * 3600 * 1000000000)) \<longrightarrow>
          (\<forall>key r1 serialNumber r2.
             rsa_GenerateKey L rnd (KeySize c) = (Inr key, r1) \<longrightarrow>
             rand_Int L r1 (2 ^ 128) = (Inr serialNumber, r2) \<longrightarrow>
             (\<exists>cert rnd'.
                GenerateRootCA L g now rnd = (Ok (cert, key), rnd') \<and>
                CommonName (x509_Certificate.Subject cert) = [] \<and>
                x509_Certificate.DNSNames cert = [[]])))"
proof (intro conjI allI impI)
  show "fst (GenerateRootCA L g now rnd) \<noteq> Panic"
    using assms
    by (auto simp: GenerateRootCA_def GeneratePrivateKey_def Let_def
        split: prod.splits sum.splits)
next
  fix err
  assume "fst (GenerateRootCA L g now rnd) = Err err"
  then show "\<exists>cause. err = Wrapf ''failed to generate private key'' cause \<or>
                     err = Wrapf ''failed to generate serial number'' cause \<or>
                     err = Wrapf ''failed to create root CA certificate'' cause \<or>
                     err = Wrapf ''failed to parse root CA certificate'' cause"
    using assms
    by (auto simp: GenerateRootCA_def GeneratePrivateKey_def Let_def
        split: prod.splits sum.splits)
next
  fix cert key rnd'
  assume "x509_contract L" and "GenerateRootCA L g now rnd = (Ok (cert, key), rnd')"
  from GenerateRootCA_fields [OF this] assms(1,2)
  show "CommonName (x509_Certificate.Subject cert) = []"
    and "x509_Certificate.DNSNames cert = [[]]"
    by auto
next
  fix key r1 serialNumber r2
  assume lib: "x509_contract L" "x509_accepts L" "rand_contract L"
    and sub: "utf8_ValidString (CertificateConfig.Country c)"
      "utf8_ValidString (CertificateConfig.State c)"
      "utf8_ValidString (CertificateConfig.Locality c)"
      "utf8_ValidString (CertificateConfig.Organization c)"
      "utf8_ValidString (CertificateConfig.OrganizationalUnit c)"
    and clock: "asn1_time_ok now" "asn1_time_ok (now + 1024 * (24 * 3600 * 1000000000))"
    and gk: "rsa_GenerateKey L rnd (KeySize c) = (Inr key, r1)"
    and ri: "rand_Int L r1 (2 ^ 128) = (Inr serialNumber, r2)"
  let ?T = "RootCATemplate L (GetRootCAOptions c now) serialNumber"
  from lib(3) ri have sn: "0 \<le> serialNumber"
    unfolding rand_contract_def by (metis zero_less_numeral zero_less_power)
  have utf8_Nil: "utf8_ValidString []"
    by (simp add: utf8_ValidString_def)
  have tok: "template_ok ?T"
    using sn assms(2) sub clock utf8_Nil
    by (simp add: template_ok_def name_ok_def RootCATemplate_def GetRootCAOptions_def
        time_Add_def time_Hour_def time_Minute_def time_Second_def)
  then have nok: "name_ok (x509_Certificate.Subject ?T)"
    by (simp add: template_ok_def)
  have pk: "parent_key_ok ?T key"
    by (simp add: parent_key_ok_def RootCATemplate_def)
  from lib(2) assms(3) gk tok nok pk obtain certDER rnd' cert where
    cr: "x509_CreateCertificate L r2 ?T ?T (rsa_PublicKey.truncate key) key = (Inr certDER, rnd')"
    and pa: "x509_ParseCertificate L certDER = Inr cert"
    unfolding x509_accepts_def by blast
  have run: "GenerateRootCA L g now rnd = (Ok (cert, key), rnd')"
    using assms(1,3) gk ri cr pa
    by (simp add: GenerateRootCA_def GeneratePrivateKey_def Let_def)
  from GenerateRootCA_fields [OF lib(1) run] assms(1,2)
  have "CommonName (x509_Certificate.Subject cert) = []"
    "x509_Certificate.DNSNames cert = [[]]"
    by auto
  with run show "\<exists>cert rnd'.
                GenerateRootCA L g now rnd = (Ok (cert, key), rnd') \<and>
                CommonName (x509_Certificate.Subject cert) = [] \<and>
                x509_Certificate.DNSNames cert = [[]]"
    by blast
qed

text \<open>
  Claim C6 at the example configuration with its domain emptied and an organization
  name that is not ASCII.
\<close>

theorem GenerateRootCA_empty_domain_witness:
  "x509_contract symlib \<and> x509_accepts symlib \<and> rand_contract symlib \<and>
   (\<exists>cert rnd'.
      GenerateRootCA symlib (NewGenerator (Some example_config_empty_domain))
        example_now [11, 42] = (Ok (cert, example_key), rnd') \<and>
      CommonName (x509_Certificate.Subject cert) = [] \<and>
      x509_Certificate.DNSNames cert = [[]])"
proof -
  let ?c = "example_config_empty_domain"
  let ?g = "NewGenerator (Some ?c)"
  have c: "config ?g = Some ?c" "Domain ?c = []" "1024 \<le> KeySize ?c"
    by (simp_all add: NewGenerator_def example_config_empty_domain_def example_config_def)
  have k: "rsa_GenerateKey symlib [11, 42] (KeySize ?c) = (Inr example_key, [42])"
    by (simp add: symlib_def sym_GenerateKey_def example_config_empty_domain_def
        example_config_def example_key_def)
  have s: "rand_Int symlib [42] (2 ^ 128) = (Inr 42, [])"
    by (simp add: symlib_def sym_Int_def)
  have u: "utf8_ValidString (CertificateConfig.Country ?c)"
    "utf8_ValidString (CertificateConfig.State ?c)"
    "utf8_ValidString (CertificateConfig.Locality ?c)"
    "utf8_ValidString (CertificateConfig.Organization ?c)"
    "utf8_ValidString (CertificateConfig.OrganizationalUnit ?c)"
    by (simp_all add: example_config_empty_domain_def example_config_def
        NewCertificateConfig_def isIA5String_def utf8_ValidString_def utf8_continuation_def)
  have t: "asn1_time_ok example_now"
    "asn1_time_ok (example_now + 1024 * (24 * 3600 * 1000000000))"
    by (simp_all add: asn1_time_ok_def example_now_def)
  note e = GenerateRootCA_empty_domain [OF c, of symlib example_now "[11, 42]"]
  from e [THEN conjunct2, THEN conjunct2, THEN conjunct2, rule_format,
      OF symlib_x509_contract symlib_x509_accepts symlib_rand_contract u t k s]
  obtain cert rnd' where
    run: "GenerateRootCA symlib ?g example_now [11, 42] = (Ok (cert, example_key), rnd')"
    and f: "CommonName (x509_Certificate.Subject cert) = []"
      "x509_Certificate.DNSNames cert = [[]]"
    by blast
  from run f symlib_x509_contract symlib_x509_accepts symlib_rand_contract show ?thesis
    by blast
qed

text \<open>
  Claim C7. The options record of \<open>GetLeafCertOptions\<close> lists the four key usages
  digitalSignature, nonRepudiation, keyEncipherment and dataEncipherment; the template
  that \<open>GenerateLeafCertificate\<close> signs has exactly the two flags digital-signature and
  key-encipherment, whatever the record's list holds (the template is the same for any
  other list), and so has the certificate returned.
\<close>

theorem leaf_key_usage:
  "CertificateOptions.KeyUsage (GetLeafCertOptions c now) =
     [''digitalSignature'', ''nonRepudiation'', ''keyEncipherment'', ''dataEncipherment''] \<and>
   x509_Certificate.KeyUsage (LeafTemplate L opts serialNumber) =
     KeyUsageDigitalSignature OR KeyUsageKeyEncipherment \<and>
   LeafTemplate L (opts \<lparr> CertificateOptions.KeyUsage := ku \<rparr>) serialNumber =
     LeafTemplate L opts serialNumber \<and>
   (x509_contract L \<longrightarrow>
    GenerateLeafCertificate L g caCert caKey now' rnd = (Ok (cert, key), rnd') \<longrightarrow>
      x509_Certificate.KeyUsage cert = KeyUsageDigitalSignature OR KeyUsageKeyEncipherment)"
proof -
  have "x509_Certificate.KeyUsage cert = 5"
    if "x509_contract L"
      "GenerateLeafCertificate L g caCert caKey now' rnd = (Ok (cert, key), rnd')"
    using GenerateLeafCertificate_fields [OF that] by blast
  then show ?thesis
    by (simp add: GetLeafCertOptions_def LeafTemplate_def KeyUsageDigitalSignature_def
        KeyUsageKeyEncipherment_def)
qed

text \<open>
  Claim C7 at the example configuration.
\<close>

theorem leaf_key_usage_witness:
  "x509_contract symlib \<and>
   (\<exists>caCert caKey cert key.
     GenerateRootCA symlib (NewGenerator (Some example_config)) example_now [11, 42]
       = (Ok (caCert, caKey), []) \<and>
     GenerateLeafCertificate symlib (NewGenerator (Some example_config))
       (Some caCert) (Some caKey) (example_now + 5000000000) [13, 44] = (Ok (cert, key), []) \<and>
     x509_Certificate.KeyUsage cert = 5 \<and>
     length (CertificateOptions.KeyUsage (GetLeafCertOptions example_config example_now)) = 4)"
proof -
  from sym_GenerateLeafCertificate_runs obtain caCert caKey cert key where
    ca: "GenerateRootCA symlib (NewGenerator (Some example_config)) example_now [11, 42]
       = (Ok (caCert, caKey), [])"
    and lf: "GenerateLeafCertificate symlib (NewGenerator (Some example_config))
       (Some caCert) (Some caKey) (example_now + 5000000000) [13, 44] = (Ok (cert, key), [])"
    by blast
  from leaf_key_usage [of example_config example_now symlib _ _ _
      "NewGenerator (Some example_config)" "Some caCert" "Some caKey"
      "example_now + 5000000000" "[13, 44]" cert key "[]"] symlib_x509_contract lf
  have "x509_Certificate.KeyUsage cert = 5"
    "length (CertificateOptions.KeyUsage (GetLeafCertOptions example_config example_now)) = 4"
    by (simp_all add: KeyUsageDigitalSignature_def KeyUsageKeyEncipherment_def)
  with ca lf symlib_x509_contract show ?thesis
    by blast
qed

text \<open>
  Claim C9. A certificate that \<open>GenerateRootCA\<close> returns carries the extended key
  usage server-auth, although the options record of \<open>GetRootCAOptions\<close> has an empty
  extended-key-usage list (and only keyCertSign and cRLSign as key usages).
\<close>

theorem root_ext_key_usage:
  assumes "x509_contract L"
    and "GenerateRootCA L g now rnd = (Ok (cert, key), rnd')"
  shows "x509_Certificate.ExtKeyUsage cert = [ExtKeyUsageServerAuth] \<and>
         CertificateOptions.ExtKeyUsage (GetRootCAOptions c now') = [] \<and>
         CertificateOptions.KeyUsage (GetRootCAOptions c now') = [''keyCertSign'', ''cRLSign'']"
  using GenerateRootCA_fields [OF assms] by (auto simp: GetRootCAOptions_def)

text \<open>
  Claim C9 at the example configuration.
\<close>

theorem root_ext_key_usage_witness:
  "x509_contract symlib \<and>
   (\<exists>cert key.
      GenerateRootCA symlib (NewGenerator (Some example_config)) example_now [11, 42]
        = (Ok (cert, key), []) \<and>
      x509_Certificate.ExtKeyUsage cert = [ExtKeyUsageServerAuth] \<and>
      CertificateOptions.ExtKeyUsage (GetRootCAOptions example_config example_now) = [])"
proof -
  from sym_GenerateRootCA_runs obtain cert key where
    run: "GenerateRootCA symlib (NewGenerator (Some example_config)) example_now [11, 42]
      = (Ok (cert, key), [])"
    by blast
  from root_ext_key_usage [OF symlib_x509_contract run, of example_config example_now]
    run symlib_x509_contract
  show ?thesis
    by blast
qed

text \<open>
  Claim C10. \<open>ConvertCertificateToBase64DER\<close> never returns an error: on a nil
  certificate it panics, on any other it returns the base64 text of the raw bytes. On
  nil, \<open>EncodeCertificateToPEM\<close> and \<open>EncodePrivateKeyToPEM\<close> return an error.
\<close>

theorem ConvertCertificateToBase64DER_nil:
  "\<not> isErr (ConvertCertificateToBase64DER L cert) \<and>
   ConvertCertificateToBase64DER L None = Panic \<and>
   ConvertCertificateToBase64DER L (Some c) = Ok (EncodeDERToBase64 L (Raw c)) \<and>
   EncodeCertificateToPEM L None = Err (Errorf ''certificate is nil'') \<and>
   EncodePrivateKeyToPEM L None = Err (Errorf ''private key is nil'')"
  by (simp add: ConvertCertificateToBase64DER_def EncodeCertificateToPEM_def
      EncodePrivateKeyToPEM_def split: option.split)

lemma sym_GenerateRootCA_example:
  "\<exists>cert. GenerateRootCA symlib (NewGenerator (Some example_config)) example_now [11, 42]
      = (Ok (cert, example_key), []) \<and> Raw cert = example_root_der"
  by (simp add: GenerateRootCA_def GeneratePrivateKey_def NewGenerator_def example_config_def
      NewCertificateConfig_def symlib_def sym_GenerateKey_def sym_Int_def
      sym_CreateCertificate_def parent_key_ok_def sym_ParseCertificate_def RootCATemplate_def
      GetRootCAOptions_def template_ok_def name_ok_def isIA5String_def asn1_time_ok_def
      time_Add_def time_Hour_def time_Minute_def time_Second_def example_now_def Let_def
      example_key_def example_root_der_def example_name_def asn1_time_def
      KeyUsageCertSign_def KeyUsageCRLSign_def rsa_PublicKey.truncate_def)

text \<open>
  Claim C4. Encoding then decoding loses nothing. For a certificate whose raw bytes
  are the encoding of a certificate (every certificate that \<open>x509.ParseCertificate\<close>,
  hence the generator, returned), \<open>DecodePEMCertificate\<close> of
  \<open>EncodeCertificateToPEM\<close> succeeds with a certificate of the same raw bytes, and
  encoding that one again gives the same PEM bytes. For an RSA key that
  \<open>rsa.GenerateKey\<close> returned, \<open>DecodePEMPrivateKey\<close> of \<open>EncodePrivateKeyToPEM\<close>
  succeeds with the same key (whose encoding is then the same PEM bytes).
\<close>

theorem pem_round_trip:
  fixes L :: "('b, 'r) stdlib"
  assumes "pem_contract L" and "x509_raw_contract L" and "pkcs8_contract L"
  shows "(\<forall>(cert :: 'b x509_Certificate) cert'.
            x509_ParseCertificate L (Raw cert) = Inr cert' \<longrightarrow>
            (\<exists>pemData. EncodeCertificateToPEM L (Some cert) = Ok pemData \<and>
                       DecodePEMCertificate L pemData = Ok cert' \<and>
                       Raw cert' = Raw cert \<and>
                       EncodeCertificateToPEM L (Some cert') = Ok pemData)) \<and>
         (\<forall>rnd bits key rnd'.
            1024 \<le> bits \<longrightarrow> rsa_GenerateKey L rnd bits = (Inr key, rnd') \<longrightarrow>
            (\<exists>pemData. EncodePrivateKeyToPEM L (Some key) = Ok pemData \<and>
                       DecodePEMPrivateKey L pemData = Ok key))"
proof (intro conjI allI impI)
  fix cert :: "'b x509_Certificate" and cert'
  assume p: "x509_ParseCertificate L (Raw cert) = Inr cert'"
  let ?b = "\<lparr> Type = ''CERTIFICATE'', Headers = [], Bytes = Raw cert \<rparr>"
  from assms(1) have d: "fst (pem_Decode L (pem_EncodeToMemory L ?b)) = Some ?b"
    unfolding pem_contract_def by blast
  from assms(2) p have r: "Raw cert' = Raw cert"
    unfolding x509_raw_contract_def by blast
  show "\<exists>pemData. EncodeCertificateToPEM L (Some cert) = Ok pemData \<and>
          DecodePEMCertificate L pemData = Ok cert' \<and> Raw cert' = Raw cert \<and>
          EncodeCertificateToPEM L (Some cert') = Ok pemData"
    using d p r by (simp add: EncodeCertificateToPEM_def DecodePEMCertificate_def)
next
  fix rnd bits key rnd'
  assume "1024 \<le> bits" "rsa_GenerateKey L rnd bits = (Inr key, rnd')"
  with assms(3) obtain der where
    m: "x509_MarshalPKCS8PrivateKey L key = Inr der"
    and p: "x509_ParsePKCS8PrivateKey L der = Inr (RSA_PrivateKey key)"
    unfolding pkcs8_contract_def by blast
  let ?b = "\<lparr> Type = ''PRIVATE KEY'', Headers = [], Bytes = der \<rparr>"
  from assms(1) have d: "fst (pem_Decode L (pem_EncodeToMemory L ?b)) = Some ?b"
    unfolding pem_contract_def by blast
  show "\<exists>pemData. EncodePrivateKeyToPEM L (Some key) = Ok pemData \<and>
          DecodePEMPrivateKey L pemData = Ok key"
    using m p d by (simp add: EncodePrivateKeyToPEM_def DecodePEMPrivateKey_def)
qed

text \<open>
  Claim C4 for the certificate and key that \<open>GenerateRootCA\<close> returns at the example
  configuration.
\<close>

theorem pem_round_trip_witness:
  "pem_contract symlib \<and> x509_raw_contract symlib \<and> pkcs8_contract symlib \<and>
   (\<exists>cert certPEM keyPEM.
      GenerateRootCA symlib (NewGenerator (Some example_config)) example_now [11, 42]
        = (Ok (cert, example_key), []) \<and>
      EncodeCertificateToPEM symlib (Some cert) = Ok certPEM \<and>
      DecodePEMCertificate symlib certPEM = Ok cert \<and>
      EncodePrivateKeyToPEM symlib (Some example_key) = Ok keyPEM \<and>
      DecodePEMPrivateKey symlib keyPEM = Ok example_key)"
proof -
  from sym_GenerateRootCA_example obtain cert where
    run: "GenerateRootCA symlib (NewGenerator (Some example_config)) example_now [11, 42]
      = (Ok (cert, example_key), [])"
    by blast
  from GenerateRootCA_OkD [OF run] obtain c :: CertificateConfig and r1 certDER where
    k: "1024 \<le> KeySize c" "rsa_GenerateKey symlib [11, 42] (KeySize c) = (Inr example_key, r1)"
    and p: "x509_ParseCertificate symlib certDER = Inr cert"
    by blast
  from symlib_x509_raw_contract p have "Raw cert = certDER"
    unfolding x509_raw_contract_def by blast
  with p have q: "x509_ParseCertificate symlib (Raw cert) = Inr cert"
    by simp
  note rt = pem_round_trip [OF symlib_pem_contract symlib_x509_raw_contract symlib_pkcs8_contract]
  from rt q obtain certPEM where
    c: "EncodeCertificateToPEM symlib (Some cert) = Ok certPEM"
      "DecodePEMCertificate symlib certPEM = Ok cert"
    by blast
  from rt k obtain keyPEM where
    d: "EncodePrivateKeyToPEM symlib (Some example_key) = Ok keyPEM"
      "DecodePEMPrivateKey symlib keyPEM = Ok example_key"
    by blast
  from run c d symlib_pem_contract symlib_x509_raw_contract symlib_pkcs8_contract show ?thesis
    by blast
qed

text \<open>
  Claim C5 as stated says that \<open>DecodePEMCertificate\<close> rejects every well-formed PEM
  envelope whose label is not CERTIFICATE, whatever its inner bytes. It accepts this
  one: the label is PRIVATE KEY, the inner bytes are the example root certificate, and
  the result is the certificate, the same as for the CERTIFICATE label.
\<close>

theorem DecodePEMCertificate_wrong_label_accepted:
  "map_option Type (fst (pem_Decode symlib mislabelled_pem)) = Some ''PRIVATE KEY'' \<and>
   map_option Bytes (fst (pem_Decode symlib mislabelled_pem)) = Some example_root_der \<and>
   \<not> isErr (DecodePEMCertificate symlib mislabelled_pem) \<and>
   DecodePEMCertificate symlib mislabelled_pem =
     DecodePEMCertificate symlib
       (pem_EncodeToMemory symlib
          \<lparr> Type = ''CERTIFICATE'', Headers = [], Bytes = example_root_der \<rparr>) \<and>
   map_option Raw (case DecodePEMCertificate symlib mislabelled_pem of
                     Ok cert \<Rightarrow> Some cert | Err err \<Rightarrow> None | Panic \<Rightarrow> None)
     = Some example_root_der"
  by (simp add: mislabelled_pem_def symlib_def sym_Decode_def DecodePEMCertificate_def
      sym_ParseCertificate_def example_root_der_def)

text \<open>
  Claim C5, amended. \<open>DecodePEMCertificate\<close> does not consult the label of the envelope:
  on a well-formed envelope it returns an error exactly when the inner bytes do not
  parse as a certificate, and two envelopes with the same inner bytes give the same
  result. An envelope that \<open>EncodePrivateKeyToPEM\<close> wrote is rejected, because the PKCS#8
  bytes in it are not a certificate.
\<close>

theorem DecodePEMCertificate_label_not_consulted:
  assumes "fst (pem_Decode L pemData) = Some block"
  shows "(isErr (DecodePEMCertificate L pemData) \<longleftrightarrow> isl (x509_ParseCertificate L (Bytes block))) \<and>
         DecodePEMCertificate L pemData \<noteq> Panic \<and>
         (\<forall>pemData' block'.
            fst (pem_Decode L pemData') = Some block' \<longrightarrow> Bytes block' = Bytes block \<longrightarrow>
            DecodePEMCertificate L pemData' = DecodePEMCertificate L pemData) \<and>
         (pem_contract L \<longrightarrow> pkcs8_not_certificate L \<longrightarrow>
            (\<forall>key keyPEM. EncodePrivateKeyToPEM L (Some key) = Ok keyPEM \<longrightarrow>
               isErr (DecodePEMCertificate L keyPEM)))"
proof (intro conjI allI impI)
  show "isErr (DecodePEMCertificate L pemData) \<longleftrightarrow> isl (x509_ParseCertificate L (Bytes block))"
    using assms by (simp add: DecodePEMCertificate_def split: sum.split)
  show "DecodePEMCertificate L pemData \<noteq> Panic"
    using assms by (simp add: DecodePEMCertificate_def split: sum.split)
next
  fix pemData' block'
  assume "fst (pem_Decode L pemData') = Some block'" "Bytes block' = Bytes block"
  with assms show "DecodePEMCertificate L pemData' = DecodePEMCertificate L pemData"
    by (simp add: DecodePEMCertificate_def)
next
  fix key keyPEM
  assume c: "pem_contract L" "pkcs8_not_certificate L"
    and e: "EncodePrivateKeyToPEM L (Some key) = Ok keyPEM"
  from e obtain der where
    m: "x509_MarshalPKCS8PrivateKey L key = Inr der"
    and k: "keyPEM = pem_EncodeToMemory L \<lparr> Type = ''PRIVATE KEY'', Headers = [], Bytes = der \<rparr>"
    by (auto simp: EncodePrivateKeyToPEM_def split: sum.splits)
  from c(1) have d: "fst (pem_Decode L keyPEM)
      = Some \<lparr> Type = ''PRIVATE KEY'', Headers = [], Bytes = der \<rparr>"
    unfolding pem_contract_def k by blast
  from c(2) m have "isl (x509_ParseCertificate L der)"
    unfolding pkcs8_not_certificate_def by blast
  with d show "isErr (DecodePEMCertificate L keyPEM)"
    by (cases "x509_ParseCertificate L der") (simp_all add: DecodePEMCertificate_def)
qed

text \<open>
  Claim C5, amended, at the mislabelled envelope and at the envelope of the example key.
\<close>

theorem DecodePEMCertificate_label_not_consulted_witness:
  "fst (pem_Decode symlib mislabelled_pem)
     = Some \<lparr> Type = ''PRIVATE KEY'', Headers = [], Bytes = example_root_der \<rparr> \<and>
   pem_contract symlib \<and> pkcs8_not_certificate symlib \<and>
   (isErr (DecodePEMCertificate symlib mislabelled_pem)
      \<longleftrightarrow> isl (x509_ParseCertificate symlib example_root_der)) \<and>
   (\<exists>keyPEM. EncodePrivateKeyToPEM symlib (Some example_key) = Ok keyPEM \<and>
      isErr (DecodePEMCertificate symlib keyPEM))"
proof -
  have d: "fst (pem_Decode symlib mislabelled_pem)
     = Some \<lparr> Type = ''PRIVATE KEY'', Headers = [], Bytes = example_root_der \<rparr>"
    by (simp add: mislabelled_pem_def symlib_def sym_Decode_def)
  have e: "EncodePrivateKeyToPEM symlib (Some example_key)
      = Ok (SymPEM ''PRIVATE KEY'' (SymPKCS8 (RSA_PrivateKey example_key)))"
    by (simp add: EncodePrivateKeyToPEM_def symlib_def)
  note t = DecodePEMCertificate_label_not_consulted [OF d]
  have a: "isErr (DecodePEMCertificate symlib mislabelled_pem)
      \<longleftrightarrow> isl (x509_ParseCertificate symlib example_root_der)"
    using t [THEN conjunct1] by simp
  have b: "isErr (DecodePEMCertificate symlib
      (SymPEM ''PRIVATE KEY'' (SymPKCS8 (RSA_PrivateKey example_key))))"
    by (rule t [THEN conjunct2, THEN conjunct2, THEN conjunct2, rule_format,
          OF symlib_pem_contract symlib_pkcs8_not_certificate e])
  from d a b e symlib_pem_contract symlib_pkcs8_not_certificate show ?thesis
    by (intro conjI exI [of _ "SymPEM ''PRIVATE KEY'' (SymPKCS8 (RSA_PrivateKey example_key))"])
qed













end
